theory Spec2Isabelle
  imports Main
begin

section \<open>Go values shared by the packages\<close>

text \<open>
  A Go \<open>string\<close> is a sequence of bytes; \<open>len\<close> counts bytes. It is modelled as
  \<^typ>\<open>string\<close> (a list of 8-bit characters), so \<^const>\<open>length\<close> is Go's \<open>len\<close>.

  A Go function returning \<open>(*T, error)\<close> is modelled as a pair of options: \<open>None\<close> in the
  first component is the \<open>nil\<close> pointer, \<open>None\<close> in the second the \<open>nil\<close> error.

  The type \<open>go_error\<close> collects the error values that can flow through the token package
  and the middleware:
  \<^item> \<open>ErrTokenInvalid\<close>, \<open>ErrTokenExpired\<close>: the two sentinels of package \<open>token\<close> that
    \<open>jwt.go\<close> returns;
  \<^item> \<open>errors_New msg\<close>: an error made by \<open>errors.New\<close> or \<open>fmt.Errorf\<close>, with its text;
  \<^item> \<open>ErrInvalidIdentity\<close>, \<open>ErrIdGeneration\<close>: the two failures of \<open>NewPayload\<close>;
  \<^item> \<open>ValidationError inner flags\<close>: \<open>*jwt.ValidationError\<close> of golang-jwt/jwt v4 with
    its fields \<open>Inner\<close> and \<open>Errors\<close>;
  \<^item> the remaining constructors: errors made inside golang-jwt/jwt v4 and the packages
    it calls (base64 and JSON decoding, the signing methods).
\<close>

datatype go_error =
    ErrTokenInvalid
  | ErrTokenExpired
  | errors_New string
  | ErrInvalidIdentity
  | ErrIdGeneration
  | ValidationError (Inner: "go_error option") (Errors: nat)
  | CorruptInputError
  | JSONSyntaxError
  | ErrSignatureInvalid
  | ErrInvalidKeyType
  | ErrInvalidKey
  | NoneSignatureTypeDisallowedError

text \<open>
  Modelled from the spec: the struct \<open>Payload\<close> of package \<open>token\<close> is not among the
  source files; only its field \<open>ExpireAt\<close> is visible (middleware.go reads it). The fields
  follow the data model of the specification: the unique token id, the identity, and the
  two timestamps. Timestamps and durations are integers (nanoseconds).
\<close>

record Payload =
  ID :: string
  Identity :: string
  IssuedAt :: int
  ExpireAt :: int

subsection \<open>Package strings\<close>

text \<open>
  \<open>strings.Fields\<close> and \<open>strings.ToLower\<close> have a fast path for strings whose bytes are
  all below \<open>utf8.RuneSelf\<close> (0x80) and otherwise go through the Unicode tables
  (\<open>FieldsFunc(s, unicode.IsSpace)\<close> and \<open>Map(unicode.ToLower, s)\<close>). The fast paths are
  modelled as they are written; the two table-driven paths are parameters, so every
  theorem below holds whatever they return.
\<close>

record go_unicode =
  FieldsFunc_IsSpace :: "string \<Rightarrow> string list"
  Map_ToLower :: "string \<Rightarrow> string"

definition isASCII :: "string \<Rightarrow> bool" where
  "isASCII s = list_all (\<lambda>c. (of_char c :: nat) < 128) s"

text \<open>The table \<open>asciiSpace\<close>: tab, line feed, vertical tab, form feed, carriage return, space.\<close>

definition asciiSpace :: "char \<Rightarrow> bool" where
  "asciiSpace c = ((of_char c :: nat) \<in> {9, 10, 11, 12, 13, 32})"

text \<open>
  The ASCII path of \<open>Fields\<close>: leading white space is skipped, a field runs to the next
  white-space byte, white space between fields is skipped, and the last field may end at
  the end of the string. \<open>cur\<close> is the field read so far.
\<close>

fun asciiFields :: "string \<Rightarrow> string \<Rightarrow> string list" where
  "asciiFields cur [] = (if cur = [] then [] else [cur])"
| "asciiFields cur (c # cs) =
     (if asciiSpace c
      then (if cur = [] then asciiFields [] cs else cur # asciiFields [] cs)
      else asciiFields (cur @ [c]) cs)"

definition Fields :: "go_unicode \<Rightarrow> string \<Rightarrow> string list" where
  "Fields U s = (if isASCII s then asciiFields [] s else FieldsFunc_IsSpace U s)"

definition asciiToLower :: "char \<Rightarrow> char" where
  "asciiToLower c =
     (if 65 \<le> (of_char c :: nat) \<and> (of_char c :: nat) \<le> 90
      then char_of ((of_char c :: nat) + 32) else c)"

definition ToLower :: "go_unicode \<Rightarrow> string \<Rightarrow> string" where
  "ToLower U s = (if isASCII s then map asciiToLower s else Map_ToLower U s)"

subsection \<open>The payload\<close>

text \<open>
  Modelled from the spec: \<open>NewPayload\<close> and \<open>Payload.Valid\<close> are not among the source
  files. \<open>NewPayload(identity, duration)\<close> generates a fresh unique id, sets
  \<open>issuedAt = now\<close> and \<open>expiresAt = now + duration\<close>; it fails with \<open>InvalidIdentity\<close> if
  the identity is empty and with \<open>IdGenerationError\<close> if the random id cannot be
  generated. \<open>Valid()\<close> returns \<open>TokenExpired\<close> if \<open>now > expiresAt\<close> and succeeds
  otherwise. The clock reading \<open>now\<close> and the outcome \<open>fresh\<close> of the random-id generator
  (\<open>None\<close> when it fails) are arguments.
\<close>

definition NewPayload :: "int \<Rightarrow> string option \<Rightarrow> string \<Rightarrow> int \<Rightarrow> go_error + Payload" where
  "NewPayload now fresh identity duration =
     (if identity = [] then Inl ErrInvalidIdentity
      else case fresh of
             None \<Rightarrow> Inl ErrIdGeneration
           | Some i \<Rightarrow>
               Inr \<lparr>ID = i, Identity = identity, IssuedAt = now, ExpireAt = now + duration\<rparr>)"

definition Valid :: "int \<Rightarrow> Payload \<Rightarrow> go_error option" where
  "Valid now payload = (if now > ExpireAt payload then Some ErrTokenExpired else None)"

subsection \<open>The library golang-jwt/jwt v4, as far as jwt.go calls it\<close>

text \<open>
  \<open>jwt.go\<close> calls \<open>jwt.NewWithClaims\<close>, \<open>Token.SignedString\<close> and
  \<open>jwt.ParseWithClaims\<close>. They are modelled after the library's control flow. What the
  library takes from \<open>encoding/base64\<close>, \<open>encoding/json\<close> and \<open>crypto/hmac\<close> is a
  parameter (the record \<open>jwt_codec\<close>): no theorem depends on how a segment is encoded
  or how a MAC is computed, only on the properties stated as hypotheses.
\<close>

datatype hash = SHA256 | SHA384 | SHA512

datatype signing_method =
    SigningMethodHMAC hash
  | SigningMethodRSA hash
  | SigningMethodRSAPSS hash
  | SigningMethodECDSA hash
  | SigningMethodEd25519
  | SigningMethodNone

definition SigningMethodHS512 :: signing_method where
  "SigningMethodHS512 = SigningMethodHMAC SHA512"

fun Alg :: "signing_method \<Rightarrow> string" where
  "Alg (SigningMethodHMAC SHA256) = ''HS256''"
| "Alg (SigningMethodHMAC SHA384) = ''HS384''"
| "Alg (SigningMethodHMAC SHA512) = ''HS512''"
| "Alg (SigningMethodRSA SHA256) = ''RS256''"
| "Alg (SigningMethodRSA SHA384) = ''RS384''"
| "Alg (SigningMethodRSA SHA512) = ''RS512''"
| "Alg (SigningMethodRSAPSS SHA256) = ''PS256''"
| "Alg (SigningMethodRSAPSS SHA384) = ''PS384''"
| "Alg (SigningMethodRSAPSS SHA512) = ''PS512''"
| "Alg (SigningMethodECDSA SHA256) = ''ES256''"
| "Alg (SigningMethodECDSA SHA384) = ''ES384''"
| "Alg (SigningMethodECDSA SHA512) = ''ES512''"
| "Alg SigningMethodEd25519 = ''EdDSA''"
| "Alg SigningMethodNone = ''none''"

text \<open>The methods the library registers under their \<open>alg\<close> names; \<open>None\<close> is Go's \<open>nil\<close>.\<close>

definition GetSigningMethod :: "string \<Rightarrow> signing_method option" where
  "GetSigningMethod alg =
     map_of (map (\<lambda>m. (Alg m, m))
       [SigningMethodHMAC SHA256, SigningMethodHMAC SHA384, SigningMethodHMAC SHA512,
        SigningMethodRSA SHA256, SigningMethodRSA SHA384, SigningMethodRSA SHA512,
        SigningMethodRSAPSS SHA256, SigningMethodRSAPSS SHA384, SigningMethodRSAPSS SHA512,
        SigningMethodECDSA SHA256, SigningMethodECDSA SHA384, SigningMethodECDSA SHA512,
        SigningMethodEd25519, SigningMethodNone]) alg"

text \<open>
  The primitives: \<open>EncodeSegment\<close> and \<open>DecodeSegment\<close> (base64url without padding;
  decoding fails on corrupt input), the JSON encoding of the header (given its \<open>alg\<close>) and
  of the claims, their decoding (\<open>None\<close>: not valid JSON for the target; for the header,
  \<open>Some None\<close>: no string under \<open>"alg"\<close>), and the MAC of a message under a key.
\<close>

record jwt_codec =
  EncodeSegment :: "string \<Rightarrow> string"
  DecodeSegment :: "string \<Rightarrow> string option"
  json_Marshal_header :: "string \<Rightarrow> string"
  json_Unmarshal_header :: "string \<Rightarrow> string option option"
  json_Marshal_claims :: "Payload \<Rightarrow> string"
  json_Unmarshal_claims :: "string \<Rightarrow> Payload option"
  hmac_Sum :: "hash \<Rightarrow> string \<Rightarrow> string \<Rightarrow> string"

text \<open>The fields of \<open>jwt.Token\<close> that jwt.go and the parser use after decoding.\<close>

record jwt_Token =
  Method :: signing_method
  Claims :: Payload

text \<open>The flags of \<open>ValidationError.Errors\<close>.\<close>

definition ValidationErrorMalformed :: nat where
  "ValidationErrorMalformed = 1"

definition ValidationErrorUnverifiable :: nat where
  "ValidationErrorUnverifiable = 2"

definition ValidationErrorSignatureInvalid :: nat where
  "ValidationErrorSignatureInvalid = 4"

definition ValidationErrorClaimsInvalid :: nat where
  "ValidationErrorClaimsInvalid = 512"

text \<open>
  \<open>errors.Is(err, target)\<close>: \<open>err\<close> is the target, or it unwraps (a \<open>ValidationError\<close>
  unwraps to its \<open>Inner\<close>) to an error that is.
\<close>

fun errors_Is :: "go_error \<Rightarrow> go_error \<Rightarrow> bool" where
  "errors_Is (ValidationError inner flags) target =
     (ValidationError inner flags = target \<or>
      (case inner of None \<Rightarrow> False | Some e \<Rightarrow> errors_Is e target))"
| "errors_Is e target = (e = target)"

text \<open>\<open>strings.Split(s, sep)\<close> for a one-byte separator; \<open>cur\<close> is the part read so far.\<close>

fun splitOn :: "char \<Rightarrow> string \<Rightarrow> string \<Rightarrow> string list" where
  "splitOn sep cur [] = [cur]"
| "splitOn sep cur (c # cs) =
     (if c = sep then cur # splitOn sep [] cs else splitOn sep (cur @ [c]) cs)"

definition Split :: "string \<Rightarrow> char \<Rightarrow> string list" where
  "Split s sep = splitOn sep [] s"

text \<open>
  \<open>Parser.ParseUnverified\<close>: three segments separated by dots, the header and the claims
  decoded, the method looked up from the header's \<open>alg\<close>. Every failure is a
  \<open>ValidationError\<close>; the result on success is the token and its three parts. (For a
  header that does not decode the library words the message differently when the string
  starts with \<open>bearer \<close>; the flag is the same and the message is not modelled.)
\<close>

definition ParseUnverified :: "jwt_codec \<Rightarrow> string \<Rightarrow> go_error + (jwt_Token \<times> string list)" where
  "ParseUnverified L tokenString =
     (let parts = Split tokenString (CHR ''.'') in
      if length parts \<noteq> 3 then Inl (ValidationError None ValidationErrorMalformed)
      else
        case DecodeSegment L (parts ! 0) of
          None \<Rightarrow> Inl (ValidationError (Some CorruptInputError) ValidationErrorMalformed)
        | Some headerBytes \<Rightarrow>
        case json_Unmarshal_header L headerBytes of
          None \<Rightarrow> Inl (ValidationError (Some JSONSyntaxError) ValidationErrorMalformed)
        | Some header_alg \<Rightarrow>
        case DecodeSegment L (parts ! 1) of
          None \<Rightarrow> Inl (ValidationError (Some CorruptInputError) ValidationErrorMalformed)
        | Some claimBytes \<Rightarrow>
        case json_Unmarshal_claims L claimBytes of
          None \<Rightarrow> Inl (ValidationError (Some JSONSyntaxError) ValidationErrorMalformed)
        | Some claims \<Rightarrow>
        case header_alg of
          None \<Rightarrow> Inl (ValidationError None ValidationErrorUnverifiable)
        | Some alg \<Rightarrow>
        case GetSigningMethod alg of
          None \<Rightarrow> Inl (ValidationError None ValidationErrorUnverifiable)
        | Some method \<Rightarrow> Inr (\<lparr>Method = method, Claims = claims\<rparr>, parts))"

text \<open>
  \<open>SigningMethod.Verify\<close> and \<open>SigningMethod.Sign\<close> for a key of dynamic type \<open>[]byte\<close>,
  the only kind of key jwt.go passes. The HMAC methods decode the signature and compare
  it with the MAC of the signing string. Every other method asserts its own key type
  (\<open>*rsa.PublicKey\<close>, \<open>*ecdsa.PublicKey\<close>, \<open>ed25519.PublicKey\<close>, the constant that
  allows \<open>none\<close>), which a \<open>[]byte\<close> is not, and returns an error.
\<close>

fun Verify :: "jwt_codec \<Rightarrow> signing_method \<Rightarrow> string \<Rightarrow> string \<Rightarrow> string \<Rightarrow> go_error option" where
  "Verify L (SigningMethodHMAC h) signingString signature key =
     (case DecodeSegment L signature of
        None \<Rightarrow> Some CorruptInputError
      | Some sig \<Rightarrow>
          if sig = hmac_Sum L h key signingString then None else Some ErrSignatureInvalid)"
| "Verify L (SigningMethodRSA h) signingString signature key =
     (case DecodeSegment L signature of
        None \<Rightarrow> Some CorruptInputError
      | Some sig \<Rightarrow> Some ErrInvalidKeyType)"
| "Verify L (SigningMethodRSAPSS h) signingString signature key =
     (case DecodeSegment L signature of
        None \<Rightarrow> Some CorruptInputError
      | Some sig \<Rightarrow> Some ErrInvalidKey)"
| "Verify L (SigningMethodECDSA h) signingString signature key =
     (case DecodeSegment L signature of
        None \<Rightarrow> Some CorruptInputError
      | Some sig \<Rightarrow> Some ErrInvalidKeyType)"
| "Verify L SigningMethodEd25519 signingString signature key = Some ErrInvalidKeyType"
| "Verify L SigningMethodNone signingString signature key =
     Some NoneSignatureTypeDisallowedError"

fun Sign :: "jwt_codec \<Rightarrow> signing_method \<Rightarrow> string \<Rightarrow> string \<Rightarrow> go_error + string" where
  "Sign L (SigningMethodHMAC h) signingString key =
     Inr (EncodeSegment L (hmac_Sum L h key signingString))"
| "Sign L (SigningMethodRSA h) signingString key = Inl ErrInvalidKey"
| "Sign L (SigningMethodRSAPSS h) signingString key = Inl ErrInvalidKeyType"
| "Sign L (SigningMethodECDSA h) signingString key = Inl ErrInvalidKeyType"
| "Sign L SigningMethodEd25519 signingString key = Inl ErrInvalidKeyType"
| "Sign L SigningMethodNone signingString key = Inl NoneSignatureTypeDisallowedError"

text \<open>
  \<open>Parser.ParseWithClaims\<close>: parse, ask \<open>keyFunc\<close> for the key (its error is returned as
  it is when it is a \<open>ValidationError\<close> and wrapped as unverifiable otherwise), verify the
  signature over the first two parts, then call \<open>Valid\<close> on the claims (an error that is
  not a \<open>ValidationError\<close> is wrapped with the claims-invalid flag). This is the order
  of v4.5; earlier v4 releases call \<open>Valid\<close> first and then store the signature error in
  \<open>Inner\<close>, so a signature failure ends in the same \<open>Inner\<close> in both. A \<open>nil\<close> key
  without an error (which the \<open>keyFunc\<close> of jwt.go never returns) fails the key type
  assertion of every method.
\<close>

definition ParseWithClaims ::
  "jwt_codec \<Rightarrow> (Payload \<Rightarrow> go_error option) \<Rightarrow> string \<Rightarrow>
   (jwt_Token \<Rightarrow> string option \<times> go_error option) \<Rightarrow> go_error + jwt_Token" where
  "ParseWithClaims L claimsValid tokenString keyFunc =
     (case ParseUnverified L tokenString of
        Inl err \<Rightarrow> Inl err
      | Inr (token, parts) \<Rightarrow>
          (case keyFunc token of
             (key, Some err) \<Rightarrow>
               (case err of
                  ValidationError inner flags \<Rightarrow> Inl err
                | _ \<Rightarrow> Inl (ValidationError (Some err) ValidationErrorUnverifiable))
           | (None, None) \<Rightarrow>
               Inl (ValidationError (Some ErrInvalidKeyType) ValidationErrorSignatureInvalid)
           | (Some key, None) \<Rightarrow>
               (case Verify L (Method token) (parts ! 0 @ ''.'' @ parts ! 1) (parts ! 2) key of
                  Some err \<Rightarrow> Inl (ValidationError (Some err) ValidationErrorSignatureInvalid)
                | None \<Rightarrow>
                    (case claimsValid (Claims token) of
                       Some err \<Rightarrow>
                         (case err of
                            ValidationError inner flags \<Rightarrow> Inl err
                          | _ \<Rightarrow> Inl (ValidationError (Some err) ValidationErrorClaimsInvalid))
                     | None \<Rightarrow> Inr token))))"

text \<open>
  \<open>Token.SignedString\<close>: the signing string is the encoded header and the encoded claims
  joined by a dot; the token is the signing string and the signature joined by a dot.
\<close>

definition SigningString :: "jwt_codec \<Rightarrow> signing_method \<Rightarrow> Payload \<Rightarrow> string" where
  "SigningString L method claims =
     EncodeSegment L (json_Marshal_header L (Alg method)) @ ''.'' @
     EncodeSegment L (json_Marshal_claims L claims)"

definition SignedString ::
  "jwt_codec \<Rightarrow> signing_method \<Rightarrow> Payload \<Rightarrow> string \<Rightarrow> string \<times> go_error option" where
  "SignedString L method claims key =
     (case Sign L method (SigningString L method claims) key of
        Inl err \<Rightarrow> ('''', Some err)
      | Inr sig \<Rightarrow> (SigningString L method claims @ ''.'' @ sig, None))"

section \<open>Package token: the signature-based maker (jwt.go)\<close>

definition minSecretKeyLen :: nat where
  "minSecretKeyLen = 32"

record JWTMaker =
  secretKey :: string

text \<open>
  \<^verbatim>\<open>
  func NewJWTMaker(secretKey string) (Maker, error) {
      if len(secretKey) < minSecretKeyLen {
          return nil, fmt.Errorf("secretKet len is less than the min value %d", minSecretKeyLen)
      }
      return &JWTMaker{secretKey}, nil
  }
  \<close>
  The text of the error is the format string with \<open>%d\<close> printed for 32.
\<close>

definition NewJWTMaker :: "string \<Rightarrow> JWTMaker option \<times> go_error option" where
  "NewJWTMaker key =
     (if length key < minSecretKeyLen
      then (None, Some (errors_New ''secretKet len is less than the min value 32''))
      else (Some \<lparr>secretKey = key\<rparr>, None))"

text \<open>
  \<^verbatim>\<open>
  func (jwtMaker *JWTMaker) CreateToken(username string) (string, *Payload, error) {
      payload, err := NewPayload(username, AccessTokenExpiration)
      if err != nil {
          return "", payload, err
      }
      jwtToken := jwt.NewWithClaims(jwt.SigningMethodHS512, payload)
      token, err := jwtToken.SignedString([]byte(jwtMaker.secretKey))
      return token, payload, err
  }
  \<close>
  The constant \<open>AccessTokenExpiration\<close> is not among the source files: it is an argument,
  the duration of every token the maker issues.
\<close>

definition CreateToken ::
  "jwt_codec \<Rightarrow> int \<Rightarrow> string option \<Rightarrow> int \<Rightarrow> JWTMaker \<Rightarrow> string \<Rightarrow>
   string \<times> Payload option \<times> go_error option" where
  "CreateToken L now fresh AccessTokenExpiration jwtMaker username =
     (case NewPayload now fresh username AccessTokenExpiration of
        Inl err \<Rightarrow> ('''', None, Some err)
      | Inr payload \<Rightarrow>
          (case SignedString L SigningMethodHS512 payload (secretKey jwtMaker) of
             (token, err) \<Rightarrow> (token, Some payload, err)))"

text \<open>
  \<^verbatim>\<open>
  func (jwtMaker *JWTMaker) VerifyToken(token string) (*Payload, error) {
      keyFunc := func(token *jwt.Token) (interface{}, error) {
          if _, ok := token.Method.(*jwt.SigningMethodECDSA); ok {
              return nil, ErrTokenInvalid
          }
          return []byte(jwtMaker.secretKey), nil
      }
      jwtToken, err := jwt.ParseWithClaims(token, &Payload{}, keyFunc)
      if err != nil {
          verr, ok := err.(*jwt.ValidationError)
          if ok && errors.Is(verr, ErrTokenExpired) {
              return nil, ErrTokenExpired
          }
          return nil, ErrTokenInvalid
      }
      payload, ok := jwtToken.Claims.(*Payload)
      if !ok {
          return nil, ErrTokenInvalid
      }
      return payload, nil
  }
  \<close>
  The claims of the parsed token are the \<open>&Payload{}\<close> handed to the parser, so the last
  type assertion succeeds. \<open>now\<close> is the clock that \<open>Payload.Valid\<close> reads when the parser
  calls it.
\<close>

definition keyFunc :: "JWTMaker \<Rightarrow> jwt_Token \<Rightarrow> string option \<times> go_error option" where
  "keyFunc jwtMaker token =
     (case Method token of
        SigningMethodECDSA h \<Rightarrow> (None, Some ErrTokenInvalid)
      | _ \<Rightarrow> (Some (secretKey jwtMaker), None))"

definition VerifyToken ::
  "jwt_codec \<Rightarrow> int \<Rightarrow> JWTMaker \<Rightarrow> string \<Rightarrow> Payload option \<times> go_error option" where
  "VerifyToken L now jwtMaker token =
     (case ParseWithClaims L (Valid now) token (keyFunc jwtMaker) of
        Inl err \<Rightarrow>
          (case err of
             ValidationError inner flags \<Rightarrow>
               if errors_Is err ErrTokenExpired then (None, Some ErrTokenExpired)
               else (None, Some ErrTokenInvalid)
           | _ \<Rightarrow> (None, Some ErrTokenInvalid))
      | Inr jwtToken \<Rightarrow> (Some (Claims jwtToken), None))"

section \<open>Package handlers: the authorization middleware (middleware.go)\<close>

definition authorizationHeaderKey :: string where
  "authorizationHeaderKey = ''authorization''"

definition authorizationTypeBearer :: string where
  "authorizationTypeBearer = ''bearer''"

definition authorizationPayloadKey :: string where
  "authorizationPayloadKey = ''payload''"

definition StatusUnauthorized :: nat where
  "StatusUnauthorized = 401"

text \<open>
  The part of \<open>gin.Context\<close> the middleware touches: the request headers (looked up by
  name; a missing header reads as the empty string), the keys set with \<open>ctx.Set\<close>, the
  abort flag, and the status code and JSON body written to the response.

  Modelled from the spec: \<open>errorResponse\<close> is not among the source files; the response
  carries a JSON error message derived from the error. It is a constructor here, so the
  body determines the error it was made from.
\<close>

datatype response_body = errorResponse go_error

record Context =
  Header :: "string \<Rightarrow> string option"
  Keys :: "string \<Rightarrow> Payload option"
  aborted :: bool
  written :: "(nat \<times> response_body) option"

definition GetHeader :: "Context \<Rightarrow> string \<Rightarrow> string" where
  "GetHeader ctx key = (case Header ctx key of None \<Rightarrow> [] | Some v \<Rightarrow> v)"

definition AbortWithStatusJSON :: "Context \<Rightarrow> nat \<Rightarrow> response_body \<Rightarrow> Context" where
  "AbortWithStatusJSON ctx code obj = ctx\<lparr>aborted := True, written := Some (code, obj)\<rparr>"

definition ctx_Set :: "Context \<Rightarrow> string \<Rightarrow> Payload \<Rightarrow> Context" where
  "ctx_Set ctx key v = ctx\<lparr>Keys := (Keys ctx)(key \<mapsto> v)\<rparr>"

text \<open>A run-time panic of the Go program.\<close>

datatype panic = NilPointerDereference

text \<open>
  \<^verbatim>\<open>
  func authMiddleware(tokenMaker token.Maker) gin.HandlerFunc {
      return func(ctx *gin.Context) {
          authorizationHeader := ctx.GetHeader(authorizationHeaderKey)
          if len(authorizationHeader) == 0 {
              err := errors.New("authorization header not provided")
              ctx.AbortWithStatusJSON(http.StatusUnauthorized, errorResponse(err))
              return
          }
          fields := strings.Fields(authorizationHeader)
          if len(fields) < 2 {
              err := errors.New("invalid authorization format")
              ctx.AbortWithStatusJSON(http.StatusUnauthorized, errorResponse(err))
              return
          }
          authorizationType := strings.ToLower(fields[0])
          if authorizationType != authorizationTypeBearer {
              err := fmt.Errorf("unsupported authorization type %s", authorizationType)
              ctx.AbortWithStatusJSON(http.StatusUnauthorized, errorResponse(err))
              return
          }
          accessToken := fields[1]
          payload, err := tokenMaker.VerifyToken(accessToken)
          log.Println(payload.ExpireAt)
          log.Println(time.Now())
          if err != nil {
              ctx.AbortWithStatusJSON(http.StatusUnauthorized, errorResponse(err))
              return
          }
          ctx.Set(authorizationPayloadKey, payload)
          ctx.Next()
      }
  }
  \<close>
  \<open>tokenMaker\<close> stands for the \<open>VerifyToken\<close> method of the maker the middleware was
  built with (the only method of the interface it calls); \<open>next\<close> is the
  rest of the handler chain, which \<open>ctx.Next()\<close> runs. \<open>payload\<close> is a \<open>*Payload\<close>:
  reading \<open>payload.ExpireAt\<close> through the \<open>nil\<close> pointer panics, and this read stands
  before the test of \<open>err\<close>. What the two \<open>log.Println\<close> calls print is not modelled.
\<close>

definition authMiddleware ::
  "go_unicode \<Rightarrow> (string \<Rightarrow> Payload option \<times> go_error option) \<Rightarrow>
   (Context \<Rightarrow> panic + Context) \<Rightarrow> Context \<Rightarrow> panic + Context" where
  "authMiddleware U tokenMaker next ctx =
     (let authorizationHeader = GetHeader ctx authorizationHeaderKey in
      if length authorizationHeader = 0 then
        Inr (AbortWithStatusJSON ctx StatusUnauthorized
              (errorResponse (errors_New ''authorization header not provided'')))
      else
        let fields = Fields U authorizationHeader in
        if length fields < 2 then
          Inr (AbortWithStatusJSON ctx StatusUnauthorized
                (errorResponse (errors_New ''invalid authorization format'')))
        else
          let authorizationType = ToLower U (fields ! 0) in
          if authorizationType \<noteq> authorizationTypeBearer then
            Inr (AbortWithStatusJSON ctx StatusUnauthorized
                  (errorResponse
                    (errors_New (''unsupported authorization type '' @ authorizationType))))
          else
            let accessToken = fields ! 1;
                (payload, err) = tokenMaker accessToken
            in case payload of
                 None \<Rightarrow> Inl NilPointerDereference
               | Some p \<Rightarrow>
                   (case err of
                      Some e \<Rightarrow> Inr (AbortWithStatusJSON ctx StatusUnauthorized (errorResponse e))
                    | None \<Rightarrow> next (ctx_Set ctx authorizationPayloadKey p)))"

text \<open>
  A string is a case variant of a lower-case word when it has the same length and each of
  its bytes is the byte of the word or, for a letter, its upper-case form.
\<close>

definition caseVariantOf :: "string \<Rightarrow> string \<Rightarrow> bool" where
  "caseVariantOf word s =
     list_all2 (\<lambda>l c. c = l \<or>
        (97 \<le> (of_char l :: nat) \<and> (of_char l :: nat) \<le> 122 \<and>
         (of_char c :: nat) + 32 = of_char l)) word s"

section \<open>The resource ownership check\<close>

text \<open>
  Modelled from the spec: the handlers of the owner-scoped operations (the deletion of an
  account, among others) are not among the source files; only their tests are
  (\<open>TestDeleteAccount\<close>). The check of the specification: 1. load the resource by its
  identifier; if it is not found, signal \<open>NotFound\<close>, independent of auth. 2. Compare the
  resource's \<open>owner\<close> field to the payload's \<open>identity\<close> retrieved from the context; a
  mismatch is \<open>Unauthorized\<close>, a match proceeds with the operation. The data-access call
  is the argument \<open>getAccount\<close>; the fields of an account are those the tests build.
\<close>

record Account =
  AccountID :: int
  Owner :: string
  Balance :: int
  Currency :: string

datatype ownership = NotFound | Unauthorized | Proceed Account

definition ownershipCheck :: "(int \<Rightarrow> Account option) \<Rightarrow> int \<Rightarrow> Payload \<Rightarrow> ownership" where
  "ownershipCheck getAccount accountId payload =
     (case getAccount accountId of
        None \<Rightarrow> NotFound
      | Some account \<Rightarrow>
          if Owner account \<noteq> Identity payload then Unauthorized else Proceed account)"

section \<open>Notions the properties are stated with\<close>

text \<open>
  The algorithm that the header of a token string claims: the \<open>alg\<close> of the decoded first
  segment of a string made of three segments; \<open>None\<close> when the string has another shape
  or the header does not decode.
\<close>

definition headerAlg :: "jwt_codec \<Rightarrow> string \<Rightarrow> string option" where
  "headerAlg L tokenString =
     (case Split tokenString (CHR ''.'') of
        [h, c, s] \<Rightarrow>
          (case DecodeSegment L h of
             None \<Rightarrow> None
           | Some headerBytes \<Rightarrow>
               (case json_Unmarshal_header L headerBytes of
                  Some (Some alg) \<Rightarrow> Some alg
                | _ \<Rightarrow> None))
      | _ \<Rightarrow> None)"

text \<open>
  What the round trip of one token needs from the primitives: the header of the HMAC
  method \<open>h\<close> and the claims \<open>p\<close> decode to what was encoded, and the three segments (the
  header, the claims, the MAC under \<open>key\<close>) decode to what was encoded and hold no dot.
  The base64url and JSON encodings have these properties for every input.
\<close>

definition roundtrips :: "jwt_codec \<Rightarrow> hash \<Rightarrow> string \<Rightarrow> Payload \<Rightarrow> bool" where
  "roundtrips L h key p =
     (let hdr = json_Marshal_header L (Alg (SigningMethodHMAC h));
          cl = json_Marshal_claims L p;
          mac = hmac_Sum L h key (SigningString L (SigningMethodHMAC h) p)
      in json_Unmarshal_header L hdr = Some (Some (Alg (SigningMethodHMAC h))) \<and>
         json_Unmarshal_claims L cl = Some p \<and>
         list_all (\<lambda>x. DecodeSegment L (EncodeSegment L x) = Some x \<and>
                        CHR ''.'' \<notin> set (EncodeSegment L x)) [hdr, cl, mac])"

section \<open>Concrete values for the closed instances\<close>

text \<open>
  A request with the given authorization header and nothing else; Unicode paths that are
  never taken on ASCII input; a payload; a maker with a 32-byte secret; and a codec that
  writes its segments in clear: the header is its \<open>alg\<close>, the claims segment is the
  identity (the id and the timestamps are those the codec is built with), and the MAC is
  the key followed by the message, without the dots.
\<close>

definition request :: "string option \<Rightarrow> Context" where
  "request h = \<lparr>Header = (\<lambda>k. if k = ''authorization'' then h else None),
                Keys = (\<lambda>k. None), aborted = False, written = None\<rparr>"

definition plainUnicode :: go_unicode where
  "plainUnicode = \<lparr>FieldsFunc_IsSpace = (\<lambda>s. [s]), Map_ToLower = (\<lambda>s. s)\<rparr>"

definition alice :: Payload where
  "alice = \<lparr>ID = ''6f1c'', Identity = ''alice'', IssuedAt = 1000, ExpireAt = 1900\<rparr>"

definition testMaker :: JWTMaker where
  "testMaker = \<lparr>secretKey = ''0123456789abcdef0123456789abcdef''\<rparr>"

definition clearCodec :: "string \<Rightarrow> int \<Rightarrow> int \<Rightarrow> jwt_codec" where
  "clearCodec i t0 t1 =
     \<lparr>EncodeSegment = (\<lambda>s. s),
      DecodeSegment = (\<lambda>s. Some s),
      json_Marshal_header = (\<lambda>alg. alg),
      json_Unmarshal_header = (\<lambda>s. Some (Some s)),
      json_Marshal_claims = Identity,
      json_Unmarshal_claims = (\<lambda>s. Some \<lparr>ID = i, Identity = s, IssuedAt = t0, ExpireAt = t1\<rparr>),
      hmac_Sum = (\<lambda>h key msg. filter (\<lambda>c. c \<noteq> CHR ''.'') (key @ msg))\<rparr>"

definition accounts :: "int \<Rightarrow> Account option" where
  "accounts accountId =
     (if accountId = 7
      then Some \<lparr>AccountID = 7, Owner = ''alice'', Balance = 250, Currency = ''USD''\<rparr>
      else None)"

section \<open>Key strength\<close>

text \<open>
  C6. Constructing a maker from a secret \<open>s\<close> fails exactly when \<open>s\<close> has fewer than 32
  bytes. The failure is the weak-key error of the constructor and comes with the \<open>nil\<close>
  maker, so no maker exists on which a token could be issued; with 32 bytes or more the
  constructor returns the maker holding \<open>s\<close> and no error.
\<close>

theorem NewJWTMaker_weak_key_iff:
  "(NewJWTMaker s = (None, Some (errors_New ''secretKet len is less than the min value 32'')))
     = (length s < 32)
   \<and> (fst (NewJWTMaker s) = None) = (length s < 32)
   \<and> (snd (NewJWTMaker s) \<noteq> None) = (length s < 32)
   \<and> (NewJWTMaker s = (Some \<lparr>secretKey = s\<rparr>, None)) = (32 \<le> length s)"
  by (simp add: NewJWTMaker_def minSecretKeyLen_def)

theorem NewJWTMaker_weak_key_iff_witness:
  "fst (NewJWTMaker ''0123456789abcdef0123456789abcde'') = None
   \<and> snd (NewJWTMaker ''0123456789abcdef0123456789abcde'') \<noteq> None
   \<and> NewJWTMaker ''0123456789abcdef0123456789abcdef''
       = (Some \<lparr>secretKey = ''0123456789abcdef0123456789abcdef''\<rparr>, None)"
  using NewJWTMaker_weak_key_iff [of "''0123456789abcdef0123456789abcde''"]
    NewJWTMaker_weak_key_iff [of "''0123456789abcdef0123456789abcdef''"]
  by simp

section \<open>Facts about the string functions\<close>

lemmas go_string_simps =
  Fields_def isASCII_def asciiSpace_def ToLower_def asciiToLower_def char_of_def bit_Suc_0_iff

lemma Fields_empty: "Fields U [] = []"
  by (simp add: Fields_def isASCII_def)

lemma caseVariant_lower:
  "list_all2 (\<lambda>l c. c = l \<or>
        (97 \<le> (of_char l :: nat) \<and> (of_char l :: nat) \<le> 122 \<and>
         (of_char c :: nat) + 32 = of_char l)) word s \<Longrightarrow>
   list_all (\<lambda>l. (of_char l :: nat) < 128 \<and> \<not> (65 \<le> (of_char l :: nat) \<and> (of_char l :: nat) \<le> 90)) word \<Longrightarrow>
   list_all (\<lambda>c. (of_char c :: nat) < 128) s \<and> map asciiToLower s = word"
proof (induction rule: list_all2_induct)
  case Nil
  then show ?case by simp
next
  case (Cons l ls c cs)
  have "(of_char c :: nat) < 128 \<and> asciiToLower c = l"
  proof (cases "c = l")
    case True
    with Cons.prems show ?thesis by (auto simp add: asciiToLower_def)
  next
    case False
    with Cons.hyps have r: "97 \<le> (of_char l :: nat)" "(of_char l :: nat) \<le> 122"
      "(of_char c :: nat) + 32 = of_char l" by auto
    then have "char_of ((of_char c :: nat) + 32) = l" by simp
    with r show ?thesis by (simp add: asciiToLower_def)
  qed
  with Cons show ?case by simp
qed

lemma ToLower_caseVariant_bearer:
  assumes "caseVariantOf ''bearer'' s"
  shows "ToLower U s = ''bearer''"
proof -
  have "list_all (\<lambda>l. (of_char l :: nat) < 128 \<and> \<not> (65 \<le> (of_char l :: nat) \<and> (of_char l :: nat) \<le> 90)) ''bearer''"
    by simp
  with assms caseVariant_lower [of "''bearer''" s]
  have "isASCII s \<and> map asciiToLower s = ''bearer''"
    unfolding caseVariantOf_def isASCII_def by blast
  then show ?thesis by (simp add: ToLower_def)
qed

section \<open>The header checks of the middleware\<close>

text \<open>
  C7 (as amended). For every authorization header the middleware applies its checks in
  order, and each rejection is a terminal 401 (the rest of the chain is not run): an
  absent or empty header is rejected with "authorization header not provided";
  otherwise a header with fewer than two white-space separated fields is rejected with
  "invalid authorization format"; otherwise, if the lower-cased first field is not
  "bearer", the request is rejected with "unsupported authorization type " followed by
  the lower-cased first field. Every case variant of "bearer" lower-cases to "bearer" and
  passes this step: the result is then the one of the token step on the second field.
\<close>

theorem authMiddleware_header_checks:
  "(Header ctx ''authorization'' = None \<or> Header ctx ''authorization'' = Some [] \<longrightarrow>
      authMiddleware U V nxt ctx =
        Inr (AbortWithStatusJSON ctx 401
              (errorResponse (errors_New ''authorization header not provided''))))
   \<and> (Header ctx ''authorization'' = Some h \<and> h \<noteq> [] \<and> length (Fields U h) < 2 \<longrightarrow>
      authMiddleware U V nxt ctx =
        Inr (AbortWithStatusJSON ctx 401
              (errorResponse (errors_New ''invalid authorization format''))))
   \<and> (Header ctx ''authorization'' = Some h \<and> h \<noteq> [] \<and> Fields U h = f0 # f1 # rest \<and>
       ToLower U f0 \<noteq> ''bearer'' \<longrightarrow>
      authMiddleware U V nxt ctx =
        Inr (AbortWithStatusJSON ctx 401
              (errorResponse (errors_New (''unsupported authorization type '' @ ToLower U f0)))))
   \<and> (Header ctx ''authorization'' = Some h \<and> h \<noteq> [] \<and> Fields U h = f0 # f1 # rest \<and>
       caseVariantOf ''bearer'' f0 \<longrightarrow>
      ToLower U f0 = ''bearer'' \<and>
      authMiddleware U V nxt ctx =
        (case V f1 of
           (None, err) \<Rightarrow> Inl NilPointerDereference
         | (Some p, Some e) \<Rightarrow> Inr (AbortWithStatusJSON ctx 401 (errorResponse e))
         | (Some p, None) \<Rightarrow> nxt (ctx_Set ctx ''payload'' p)))"
proof (intro conjI impI)
  assume "Header ctx ''authorization'' = None \<or> Header ctx ''authorization'' = Some []"
  then show "authMiddleware U V nxt ctx =
        Inr (AbortWithStatusJSON ctx 401
              (errorResponse (errors_New ''authorization header not provided'')))"
    by (auto simp: authMiddleware_def GetHeader_def authorizationHeaderKey_def
        StatusUnauthorized_def)
next
  assume "Header ctx ''authorization'' = Some h \<and> h \<noteq> [] \<and> length (Fields U h) < 2"
  then show "authMiddleware U V nxt ctx =
        Inr (AbortWithStatusJSON ctx 401
              (errorResponse (errors_New ''invalid authorization format'')))"
    by (simp add: authMiddleware_def GetHeader_def authorizationHeaderKey_def
        StatusUnauthorized_def)
next
  assume "Header ctx ''authorization'' = Some h \<and> h \<noteq> [] \<and> Fields U h = f0 # f1 # rest \<and>
       ToLower U f0 \<noteq> ''bearer''"
  then show "authMiddleware U V nxt ctx =
        Inr (AbortWithStatusJSON ctx 401
              (errorResponse (errors_New (''unsupported authorization type '' @ ToLower U f0))))"
    by (simp add: authMiddleware_def GetHeader_def authorizationHeaderKey_def
        StatusUnauthorized_def authorizationTypeBearer_def)
next
  assume a: "Header ctx ''authorization'' = Some h \<and> h \<noteq> [] \<and> Fields U h = f0 # f1 # rest \<and>
       caseVariantOf ''bearer'' f0"
  then show "ToLower U f0 = ''bearer''"
    by (simp add: ToLower_caseVariant_bearer)
next
  assume a: "Header ctx ''authorization'' = Some h \<and> h \<noteq> [] \<and> Fields U h = f0 # f1 # rest \<and>
       caseVariantOf ''bearer'' f0"
  then have "ToLower U f0 = ''bearer''"
    by (simp add: ToLower_caseVariant_bearer)
  with a show "authMiddleware U V nxt ctx =
        (case V f1 of
           (None, err) \<Rightarrow> Inl NilPointerDereference
         | (Some p, Some e) \<Rightarrow> Inr (AbortWithStatusJSON ctx 401 (errorResponse e))
         | (Some p, None) \<Rightarrow> nxt (ctx_Set ctx ''payload'' p))"
    by (simp add: authMiddleware_def GetHeader_def authorizationHeaderKey_def
        StatusUnauthorized_def authorizationTypeBearer_def authorizationPayloadKey_def
        split: prod.splits option.splits)
qed

text \<open>
  The claim as stated gives the third message as "unsupported authorization type"; for
  the header \<open>OAuth xyz\<close> the message is "unsupported authorization type oauth".
\<close>

lemma Fields_OAuth: "Fields plainUnicode ''OAuth xyz'' = [''OAuth'', ''xyz'']"
  by (simp add: go_string_simps)

lemma ToLower_OAuth: "ToLower plainUnicode ''OAuth'' = ''oauth''"
  by (simp add: go_string_simps)

theorem authMiddleware_scheme_message_counterexample:
  "authMiddleware plainUnicode (\<lambda>t. (None, Some ErrTokenInvalid)) Inr (request (Some ''OAuth xyz''))
     = Inr (AbortWithStatusJSON (request (Some ''OAuth xyz'')) 401
              (errorResponse (errors_New ''unsupported authorization type oauth'')))
   \<and> authMiddleware plainUnicode (\<lambda>t. (None, Some ErrTokenInvalid)) Inr (request (Some ''OAuth xyz''))
     \<noteq> Inr (AbortWithStatusJSON (request (Some ''OAuth xyz'')) 401
              (errorResponse (errors_New ''unsupported authorization type'')))"
  by (simp add: authMiddleware_def GetHeader_def authorizationHeaderKey_def request_def
      StatusUnauthorized_def authorizationTypeBearer_def Fields_OAuth ToLower_OAuth
      AbortWithStatusJSON_def)


lemma Fields_instances:
  "Fields plainUnicode ''bearer'' = [''bearer'']"
  "Fields plainUnicode ''Basic dXNlcjpwdw'' = [''Basic'', ''dXNlcjpwdw'']"
  "Fields plainUnicode ''BeArEr tok'' = [''BeArEr'', ''tok'']"
  "Fields plainUnicode ''Bearer tok extra junk'' = [''Bearer'', ''tok'', ''extra'', ''junk'']"
  by (simp_all add: go_string_simps)

lemma ToLower_instances:
  "ToLower plainUnicode ''Basic'' = ''basic''"
  "ToLower plainUnicode ''Bearer'' = ''bearer''"
  by (simp_all add: go_string_simps)

theorem authMiddleware_header_checks_witness:
  "authMiddleware plainUnicode (\<lambda>t. (Some alice, None)) Inr (request None)
     = Inr (AbortWithStatusJSON (request None) 401
              (errorResponse (errors_New ''authorization header not provided'')))
   \<and> authMiddleware plainUnicode (\<lambda>t. (Some alice, None)) Inr (request (Some ''bearer''))
     = Inr (AbortWithStatusJSON (request (Some ''bearer'')) 401
              (errorResponse (errors_New ''invalid authorization format'')))
   \<and> authMiddleware plainUnicode (\<lambda>t. (Some alice, None)) Inr (request (Some ''Basic dXNlcjpwdw''))
     = Inr (AbortWithStatusJSON (request (Some ''Basic dXNlcjpwdw'')) 401
              (errorResponse (errors_New ''unsupported authorization type basic'')))
   \<and> authMiddleware plainUnicode (\<lambda>t. (Some alice, None)) Inr (request (Some ''BeArEr tok''))
     = Inr (ctx_Set (request (Some ''BeArEr tok'')) ''payload'' alice)"
  using
    authMiddleware_header_checks [where ctx = "request None" and U = plainUnicode
      and V = "\<lambda>t. (Some alice, None)" and nxt = Inr]
    authMiddleware_header_checks [where ctx = "request (Some ''bearer'')" and U = plainUnicode
      and V = "\<lambda>t. (Some alice, None)" and nxt = Inr and h = "''bearer''"]
    authMiddleware_header_checks [where ctx = "request (Some ''Basic dXNlcjpwdw'')"
      and U = plainUnicode and V = "\<lambda>t. (Some alice, None)" and nxt = Inr
      and h = "''Basic dXNlcjpwdw''" and ?f0.0 = "''Basic''" and ?f1.0 = "''dXNlcjpwdw''" and rest = "[]"]
    authMiddleware_header_checks [where ctx = "request (Some ''BeArEr tok'')"
      and U = plainUnicode and V = "\<lambda>t. (Some alice, None)" and nxt = Inr
      and h = "''BeArEr tok''" and ?f0.0 = "''BeArEr''" and ?f1.0 = "''tok''" and rest = "[]"]
  by (simp add: request_def Fields_instances ToLower_instances caseVariantOf_def)

section \<open>Fields after the second\<close>

text \<open>
  C10. For every authorization header with more than two white-space separated fields
  whose first field lower-cases to "bearer", the middleware accepts the format and its
  result is determined by \<open>VerifyToken\<close> on exactly the second field: the fields after the
  second do not occur in it.
\<close>

theorem authMiddleware_extra_fields_ignored:
  assumes "Header ctx ''authorization'' = Some h"
    and "Fields U h = f0 # f1 # rest"
    and "rest \<noteq> []"
    and "ToLower U f0 = ''bearer''"
  shows "authMiddleware U V nxt ctx =
        (case V f1 of
           (None, err) \<Rightarrow> Inl NilPointerDereference
         | (Some p, Some e) \<Rightarrow> Inr (AbortWithStatusJSON ctx 401 (errorResponse e))
         | (Some p, None) \<Rightarrow> nxt (ctx_Set ctx ''payload'' p))"
proof -
  from assms(2) have "h \<noteq> []"
    using Fields_empty [of U] by auto
  with assms show ?thesis
    by (simp add: authMiddleware_def GetHeader_def authorizationHeaderKey_def
        StatusUnauthorized_def authorizationTypeBearer_def authorizationPayloadKey_def
        split: prod.splits option.splits)
qed

theorem authMiddleware_extra_fields_ignored_witness:
  "authMiddleware plainUnicode (\<lambda>t. if t = ''tok'' then (Some alice, None) else (None, Some ErrTokenInvalid))
       Inr (request (Some ''Bearer tok extra junk''))
     = Inr (ctx_Set (request (Some ''Bearer tok extra junk'')) ''payload'' alice)"
  using authMiddleware_extra_fields_ignored [where ctx = "request (Some ''Bearer tok extra junk'')"
      and U = plainUnicode and h = "''Bearer tok extra junk''" and ?f0.0 = "''Bearer''"
      and ?f1.0 = "''tok''" and rest = "[''extra'', ''junk'']" and nxt = Inr
      and V = "\<lambda>t. if t = ''tok'' then (Some alice, None) else (None, Some ErrTokenInvalid)"]
  by (simp add: request_def Fields_instances ToLower_instances)

section \<open>Facts about the parser and the maker\<close>

lemma splitOn_no_sep: "sep \<notin> set xs \<Longrightarrow> splitOn sep cur xs = [cur @ xs]"
  by (induction xs arbitrary: cur) auto

lemma splitOn_sep:
  "sep \<notin> set xs \<Longrightarrow> splitOn sep cur (xs @ sep # ys) = (cur @ xs) # splitOn sep [] ys"
  by (induction xs arbitrary: cur) auto

lemma Split_three:
  assumes "CHR ''.'' \<notin> set a" "CHR ''.'' \<notin> set b" "CHR ''.'' \<notin> set c"
  shows "Split (a @ ''.'' @ b @ ''.'' @ c) (CHR ''.'') = [a, b, c]"
  using assms by (simp add: Split_def splitOn_sep splitOn_no_sep)

lemma GetSigningMethod_Alg: "GetSigningMethod (Alg m) = Some m"
  by (cases m rule: Alg.cases) (simp_all add: GetSigningMethod_def)

lemma GetSigningMethod_Some: "GetSigningMethod a = Some m \<Longrightarrow> Alg m = a"
  by (auto simp: GetSigningMethod_def split: if_splits)


lemma ParseUnverified_Inl:
  "ParseUnverified L tok = Inl e \<Longrightarrow> (\<exists>i f. e = ValidationError i f) \<and> \<not> errors_Is e ErrTokenExpired"
  by (auto simp: ParseUnverified_def Let_def split: if_splits option.splits)

lemma VerifyToken_parse_error:
  "ParseUnverified L tok = Inl e \<Longrightarrow> VerifyToken L now m tok = (None, Some ErrTokenInvalid)"
  using ParseUnverified_Inl [of L tok e]
  by (auto simp: VerifyToken_def ParseWithClaims_def)

lemma VerifyToken_parsed:
  "ParseUnverified L tok = Inr (t, parts) \<Longrightarrow>
   VerifyToken L now m tok =
     (case Method t of
        SigningMethodECDSA h \<Rightarrow> (None, Some ErrTokenInvalid)
      | _ \<Rightarrow>
        (case Verify L (Method t) (parts ! 0 @ ''.'' @ parts ! 1) (parts ! 2) (secretKey m) of
           Some e \<Rightarrow> (None, Some ErrTokenInvalid)
         | None \<Rightarrow> if now > ExpireAt (Claims t) then (None, Some ErrTokenExpired)
                   else (Some (Claims t), None)))"
  apply (cases "Method t")
  apply (auto simp: VerifyToken_def ParseWithClaims_def keyFunc_def Valid_def split: option.splits)
  done


lemma length3: "length xs = 3 \<Longrightarrow> \<exists>a b c. xs = [a, b, c]"
  by (cases xs; simp; cases "tl xs"; simp; cases "tl (tl xs)"; auto)

lemma ParseUnverified_headerAlg:
  assumes "ParseUnverified L tok = Inr (t, parts)"
  shows "headerAlg L tok = Some (Alg (Method t))"
proof -
  from assms have "length (Split tok (CHR ''.'')) = 3"
    by (auto simp: ParseUnverified_def Let_def split: if_splits)
  then obtain a b c where abc: "Split tok (CHR ''.'') = [a, b, c]"
    using length3 by blast
  with assms show ?thesis
    by (auto simp: ParseUnverified_def headerAlg_def Let_def
        split: option.splits dest: GetSigningMethod_Some)
qed

lemmas VerifyToken_eval =
  VerifyToken_def ParseWithClaims_def ParseUnverified_def Split_def keyFunc_def Valid_def
  GetSigningMethod_def clearCodec_def testMaker_def Let_def
  ValidationErrorMalformed_def ValidationErrorUnverifiable_def
  ValidationErrorSignatureInvalid_def ValidationErrorClaimsInvalid_def

section \<open>Algorithms outside the HMAC family\<close>

text \<open>
  C2. For every token whose header claims an algorithm other than HS256, HS384 and HS512
  (every asymmetric one among them: RS*, PS*, ES*, EdDSA; also \<open>none\<close> and every
  unregistered name), \<open>VerifyToken\<close> returns no payload and an error. The ECDSA
  methods are refused by \<open>keyFunc\<close>; the others receive the HMAC secret as a \<open>[]byte\<close>
  key, which their \<open>Verify\<close> refuses.
\<close>

theorem VerifyToken_rejects_other_algorithms:
  assumes "headerAlg L tok = Some a"
    and "a \<notin> {''HS256'', ''HS384'', ''HS512''}"
  shows "VerifyToken L now m tok = (None, Some ErrTokenInvalid)"
proof (cases "ParseUnverified L tok")
  case (Inl e)
  then show ?thesis by (rule VerifyToken_parse_error)
next
  case (Inr r)
  obtain t parts where r: "r = (t, parts)" by (cases r)
  with Inr have p: "ParseUnverified L tok = Inr (t, parts)" by simp
  from ParseUnverified_headerAlg [OF p] assms have a: "Alg (Method t) = a" by simp
  have nh: "\<forall>h. Method t \<noteq> SigningMethodHMAC h"
  proof (intro allI notI)
    fix h assume "Method t = SigningMethodHMAC h"
    with a assms(2) show False by (cases h) auto
  qed
  then show ?thesis
    by (cases "Method t") (auto simp: VerifyToken_parsed [OF p] split: option.splits)
qed

lemma headerAlg_clear:
  "headerAlg (clearCodec i t0 t1) ''RS256.alice.c2lnbmF0dXJl'' = Some ''RS256''"
  "headerAlg (clearCodec i t0 t1) ''ES256.alice.c2lnbmF0dXJl'' = Some ''ES256''"
  "headerAlg (clearCodec i t0 t1) ''none.alice.'' = Some ''none''"
  by (simp_all add: headerAlg_def Split_def clearCodec_def)

theorem VerifyToken_rejects_other_algorithms_witness:
  "VerifyToken (clearCodec ''6f1c'' 1000 1900) 1000 testMaker ''RS256.alice.c2lnbmF0dXJl''
     = (None, Some ErrTokenInvalid)
   \<and> VerifyToken (clearCodec ''6f1c'' 1000 1900) 1000 testMaker ''ES256.alice.c2lnbmF0dXJl''
     = (None, Some ErrTokenInvalid)
   \<and> VerifyToken (clearCodec ''6f1c'' 1000 1900) 1000 testMaker ''none.alice.''
     = (None, Some ErrTokenInvalid)"
  using
    VerifyToken_rejects_other_algorithms [where L = "clearCodec ''6f1c'' 1000 1900"
      and tok = "''RS256.alice.c2lnbmF0dXJl''" and a = "''RS256''" and now = 1000 and m = testMaker]
    VerifyToken_rejects_other_algorithms [where L = "clearCodec ''6f1c'' 1000 1900"
      and tok = "''ES256.alice.c2lnbmF0dXJl''" and a = "''ES256''" and now = 1000 and m = testMaker]
    VerifyToken_rejects_other_algorithms [where L = "clearCodec ''6f1c'' 1000 1900"
      and tok = "''none.alice.''" and a = "''none''" and now = 1000 and m = testMaker]
  by (simp add: headerAlg_clear)

section \<open>The errors of VerifyToken\<close>






lemma ParseUnverified_signed:
  assumes "roundtrips L h key p"
  shows "ParseUnverified L (SigningString L (SigningMethodHMAC h) p @ ''.'' @
            EncodeSegment L (hmac_Sum L h key (SigningString L (SigningMethodHMAC h) p)))
         = Inr (\<lparr>Method = SigningMethodHMAC h, Claims = p\<rparr>,
                [EncodeSegment L (json_Marshal_header L (Alg (SigningMethodHMAC h))),
                 EncodeSegment L (json_Marshal_claims L p),
                 EncodeSegment L (hmac_Sum L h key (SigningString L (SigningMethodHMAC h) p))])"
proof -
  let ?eh = "EncodeSegment L (json_Marshal_header L (Alg (SigningMethodHMAC h)))"
  let ?ec = "EncodeSegment L (json_Marshal_claims L p)"
  let ?es = "EncodeSegment L (hmac_Sum L h key (SigningString L (SigningMethodHMAC h) p))"
  from assms have dots: "CHR ''.'' \<notin> set ?eh" "CHR ''.'' \<notin> set ?ec" "CHR ''.'' \<notin> set ?es"
    by (simp_all add: roundtrips_def Let_def)
  have "SigningString L (SigningMethodHMAC h) p @ ''.'' @ ?es = ?eh @ ''.'' @ ?ec @ ''.'' @ ?es"
    by (simp add: SigningString_def)
  then have sp: "Split (SigningString L (SigningMethodHMAC h) p @ ''.'' @ ?es) (CHR ''.'')
      = [?eh, ?ec, ?es]"
    using Split_three [OF dots] by simp
  from assms show ?thesis
    unfolding ParseUnverified_def sp
    by (simp add: roundtrips_def Let_def GetSigningMethod_Alg)
qed

lemma Verify_signed:
  assumes "roundtrips L h key p"
  shows "Verify L (SigningMethodHMAC h)
           (EncodeSegment L (json_Marshal_header L (Alg (SigningMethodHMAC h))) @ ''.'' @
            EncodeSegment L (json_Marshal_claims L p))
           (EncodeSegment L (hmac_Sum L h key (SigningString L (SigningMethodHMAC h) p))) key = None"
  using assms by (simp add: roundtrips_def Let_def SigningString_def)

lemma VerifyToken_signed:
  assumes "roundtrips L h (secretKey m) p"
  shows "VerifyToken L t m (SigningString L (SigningMethodHMAC h) p @ ''.'' @
            EncodeSegment L (hmac_Sum L h (secretKey m) (SigningString L (SigningMethodHMAC h) p)))
         = (if t > ExpireAt p then (None, Some ErrTokenExpired) else (Some p, None))"
proof -
  note p = ParseUnverified_signed [OF assms]
  note v = Verify_signed [OF assms]
  show ?thesis
    unfolding VerifyToken_parsed [OF p] using v by simp
qed

lemmas clear_simps =
  clearCodec_def testMaker_def roundtrips_def SigningString_def Let_def

lemma roundtrips_clear:
  "roundtrips (clearCodec ''6f1c'' 1000 1900) SHA512 (secretKey testMaker)
     \<lparr>ID = ''6f1c'', Identity = ''alice'', IssuedAt = 1000, ExpireAt = 1000 + 900\<rparr>"
  "roundtrips (clearCodec ''6f1c'' 1000 940) SHA512 (secretKey testMaker)
     \<lparr>ID = ''6f1c'', Identity = ''alice'', IssuedAt = 1000, ExpireAt = 1000 + (- 60)\<rparr>"
  by (simp_all add: clear_simps)

section \<open>Creating and verifying a token\<close>



lemma CreateToken_Some:
  assumes "CreateToken L now fresh d m username = (tok, Some p, None)"
  shows "tok = SigningString L (SigningMethodHMAC SHA512) p @ ''.'' @
            EncodeSegment L (hmac_Sum L SHA512 (secretKey m)
              (SigningString L (SigningMethodHMAC SHA512) p))
         \<and> ExpireAt p = now + d \<and> Identity p = username \<and> username \<noteq> []"
  using assms
  by (auto simp: CreateToken_def NewPayload_def SignedString_def SigningMethodHS512_def
      split: if_splits option.splits)

text \<open>
  C5. For every duration \<open>d < 0\<close>, a token created with \<open>d\<close> fails verification at any
  time from its creation on, and the error \<open>VerifyToken\<close> returns is \<open>ErrTokenExpired\<close>,
  not the generic \<open>ErrTokenInvalid\<close>. The primitives are assumed to round-trip on this
  token.
\<close>

theorem negative_duration_TokenExpired:
  assumes "CreateToken L now fresh d m username = (tok, Some p, None)"
    and "d < 0"
    and "0 \<le> e"
    and "roundtrips L SHA512 (secretKey m) p"
  shows "VerifyToken L (now + e) m tok = (None, Some ErrTokenExpired)"
proof -
  from CreateToken_Some [OF assms(1)]
  have tok: "tok = SigningString L (SigningMethodHMAC SHA512) p @ ''.'' @
            EncodeSegment L (hmac_Sum L SHA512 (secretKey m)
              (SigningString L (SigningMethodHMAC SHA512) p))"
    and ex: "ExpireAt p = now + d" by simp_all
  show ?thesis
    unfolding tok VerifyToken_signed [OF assms(4)] using ex assms(2,3) by simp
qed

lemma CreateToken_clear:
  "CreateToken (clearCodec ''6f1c'' 1000 940) 1000 (Some ''6f1c'') (- 60) testMaker ''alice''
     = (''HS512.alice.0123456789abcdef0123456789abcdefHS512alice'',
        Some \<lparr>ID = ''6f1c'', Identity = ''alice'', IssuedAt = 1000, ExpireAt = 940\<rparr>, None)"
  by (simp add: CreateToken_def NewPayload_def SignedString_def SigningMethodHS512_def clear_simps)

theorem negative_duration_TokenExpired_witness:
  "VerifyToken (clearCodec ''6f1c'' 1000 940) (1000 + 5) testMaker
     ''HS512.alice.0123456789abcdef0123456789abcdefHS512alice'' = (None, Some ErrTokenExpired)"
  using negative_duration_TokenExpired [where L = "clearCodec ''6f1c'' 1000 940" and now = 1000
      and d = "- 60" and e = 5 and fresh = "Some ''6f1c''" and username = "''alice''"
      and m = testMaker, OF CreateToken_clear] roundtrips_clear(2)
  by simp

section \<open>A token that fails verification\<close>

lemma VerifyToken_error_nil_payload:
  "snd (VerifyToken L now m tok) \<noteq> None \<Longrightarrow> fst (VerifyToken L now m tok) = None"
proof (cases "ParseUnverified L tok")
  case (Inl e)
  then show ?thesis by (simp add: VerifyToken_parse_error)
next
  case (Inr r)
  obtain t parts where "r = (t, parts)" by (cases r)
  with Inr have p: "ParseUnverified L tok = Inr (t, parts)" by simp
  assume "snd (VerifyToken L now m tok) \<noteq> None"
  then show ?thesis
    by (auto simp: VerifyToken_parsed [OF p] split: signing_method.splits option.splits if_splits)
qed

lemma Fields_bearer_abc: "Fields U ''bearer abc'' = [''bearer'', ''abc'']"
  by (simp add: go_string_simps)

lemma ToLower_bearer: "ToLower U ''bearer'' = ''bearer''"
  by (simp add: go_string_simps)

lemma VerifyToken_abc: "VerifyToken L now m ''abc'' = (None, Some ErrTokenInvalid)"
  by (rule VerifyToken_parse_error [of L "''abc''" "ValidationError None ValidationErrorMalformed"])
     (simp add: ParseUnverified_def Split_def)

text \<open>
  C1. The claim: a request that reaches the token step with a token that fails
  verification is rejected with a 401 carrying the verification error, and no payload is
  attached. The code at the request \<open>authorization: bearer abc\<close>, for the maker of jwt.go
  with any secret, any clock and any codec: \<open>VerifyToken\<close> returns the \<open>nil\<close> payload and
  \<open>ErrTokenInvalid\<close>, and the middleware panics on the read of \<open>payload.ExpireAt\<close>; no
  401 is written.
\<close>

theorem authMiddleware_malformed_token_panics:
  "VerifyToken L now m ''abc'' = (None, Some ErrTokenInvalid)
   \<and> authMiddleware U (VerifyToken L now m) nxt (request (Some ''bearer abc''))
       = Inl NilPointerDereference"
  by (simp add: authMiddleware_def GetHeader_def authorizationHeaderKey_def request_def
      authorizationTypeBearer_def Fields_bearer_abc ToLower_bearer VerifyToken_abc)

text \<open>
  C9. The claim: on its error path the middleware completes without dereferencing a
  \<open>nil\<close> payload and reaches the 401 branch. The code: \<open>VerifyToken\<close> of jwt.go returns
  the \<open>nil\<close> payload with every error, so for every request that reaches the token step
  with a token that fails verification the read of \<open>payload.ExpireAt\<close>, which stands
  before the test of \<open>err\<close>, panics.
\<close>

theorem authMiddleware_panics_on_verification_error:
  assumes "Header ctx ''authorization'' = Some h"
    and "Fields U h = f0 # f1 # rest"
    and "ToLower U f0 = ''bearer''"
    and "snd (VerifyToken L now m f1) \<noteq> None"
  shows "fst (VerifyToken L now m f1) = None
         \<and> authMiddleware U (VerifyToken L now m) nxt ctx = Inl NilPointerDereference"
proof -
  from assms(2) have "h \<noteq> []"
    using Fields_empty [of U] by auto
  moreover from assms(4) have "fst (VerifyToken L now m f1) = None"
    by (rule VerifyToken_error_nil_payload)
  ultimately show ?thesis
    using assms(1-3)
    by (auto simp add: authMiddleware_def GetHeader_def authorizationHeaderKey_def
        authorizationTypeBearer_def split: prod.splits)
qed

lemma Fields_expired:
  "Fields plainUnicode ''Bearer HS512.alice.0123456789abcdef0123456789abcdefHS512alice''
     = [''Bearer'', ''HS512.alice.0123456789abcdef0123456789abcdefHS512alice'']"
  by (simp add: go_string_simps)

lemma VerifyToken_expired:
  "VerifyToken (clearCodec ''6f1c'' 1000 940) 1005 testMaker
     ''HS512.alice.0123456789abcdef0123456789abcdefHS512alice'' = (None, Some ErrTokenExpired)"
  by (simp add: VerifyToken_eval)

theorem authMiddleware_panics_on_verification_error_witness:
  "authMiddleware plainUnicode (VerifyToken (clearCodec ''6f1c'' 1000 940) 1005 testMaker) Inr
     (request (Some ''Bearer HS512.alice.0123456789abcdef0123456789abcdefHS512alice''))
   = Inl NilPointerDereference"
  using authMiddleware_panics_on_verification_error
    [where ctx = "request (Some ''Bearer HS512.alice.0123456789abcdef0123456789abcdefHS512alice'')"
      and U = plainUnicode and L = "clearCodec ''6f1c'' 1000 940" and now = 1005 and m = testMaker
      and h = "''Bearer HS512.alice.0123456789abcdef0123456789abcdefHS512alice''"
      and ?f0.0 = "''Bearer''"
      and ?f1.0 = "''HS512.alice.0123456789abcdef0123456789abcdefHS512alice''"
      and rest = "[]" and nxt = Inr]
  by (simp add: request_def Fields_expired ToLower_instances VerifyToken_expired)

section \<open>Ownership\<close>

text \<open>
  C8. For an owner-scoped operation the resource is loaded first, and an absent resource
  is signalled as \<open>NotFound\<close> whoever is authenticated. When the resource is found, the
  operation proceeds if the identity of the authenticated payload equals the owner of the
  resource and is rejected as \<open>Unauthorized\<close> when they differ, although the payload
  comes from a valid token.
\<close>

theorem ownershipCheck_cases:
  "(getAccount accountId = None \<longrightarrow> ownershipCheck getAccount accountId payload = NotFound)
   \<and> (getAccount accountId = Some account \<and> Identity payload = Owner account \<longrightarrow>
        ownershipCheck getAccount accountId payload = Proceed account)
   \<and> (getAccount accountId = Some account \<and> Identity payload \<noteq> Owner account \<longrightarrow>
        ownershipCheck getAccount accountId payload = Unauthorized)"
  by (auto simp: ownershipCheck_def)

theorem ownershipCheck_cases_witness:
  "ownershipCheck accounts 8 alice = NotFound
   \<and> ownershipCheck accounts 7 alice
       = Proceed \<lparr>AccountID = 7, Owner = ''alice'', Balance = 250, Currency = ''USD''\<rparr>
   \<and> ownershipCheck accounts 7 (alice\<lparr>Identity := ''bob''\<rparr>) = Unauthorized"
  using
    ownershipCheck_cases [where getAccount = accounts and accountId = 8 and payload = alice]
    ownershipCheck_cases [where getAccount = accounts and accountId = 7 and payload = alice
      and account = "\<lparr>AccountID = 7, Owner = ''alice'', Balance = 250, Currency = ''USD''\<rparr>"]
    ownershipCheck_cases [where getAccount = accounts and accountId = 7
      and payload = "alice\<lparr>Identity := ''bob''\<rparr>"
      and account = "\<lparr>AccountID = 7, Owner = ''alice'', Balance = 250, Currency = ''USD''\<rparr>"]
  by (simp add: accounts_def alice_def)


end
